theory Spec2Isabelle
  imports Main "HOL-Library.AList"
begin

section \<open>The component of django-unicorn (static/js/component.js)\<close>

text \<open>
  A shallow embedding of the class \<open>Component\<close>. The component object and the
  part of the browser it acts on (listeners, timers, the calls made on bound
  elements) form one record; every method is a function from that record to
  the updated one. DOM nodes are natural numbers, so that \<open>isSameNode\<close> is
  equality of numbers. Closures are data: each constructor names the arrow function
  of the source it stands for and carries the variables that function captured.
\<close>

subsection \<open>JavaScript values\<close>

datatype jsval =
    JUndefined
  | JNull
  | JBool bool
  | JNum int
  | JStr string
  | JArr "jsval list"
  | JObj "(string \<times> jsval) list"

text \<open>
  \<open>name.split(".")\<close>: the pieces between the dots; the empty string has the one
  piece \<open>''''\<close>.
\<close>

fun split_on :: "char \<Rightarrow> string \<Rightarrow> string list" where
  "split_on c [] = [[]]"
| "split_on c (x # xs) =
     (if x = c then [] # split_on c xs
      else (case split_on c xs of
              [] \<Rightarrow> [[x]]
            | p # ps \<Rightarrow> (x # p) # ps))"

text \<open>
  Array indices as property names: the canonical decimal numerals (\<open>0\<close>, or digits
  that do not start with \<open>0\<close>).
\<close>

definition digit_val :: "char \<Rightarrow> nat option" where
  "digit_val c =
     (let n = of_char c :: nat in if 48 \<le> n \<and> n \<le> 57 then Some (n - 48) else None)"

fun digits_val :: "nat \<Rightarrow> string \<Rightarrow> nat option" where
  "digits_val acc [] = Some acc"
| "digits_val acc (c # cs) =
     (case digit_val c of
        None \<Rightarrow> None
      | Some d \<Rightarrow> digits_val (10 * acc + d) cs)"

definition array_index :: "string \<Rightarrow> nat option" where
  "array_index s =
     (if s = [] then None
      else if hd s = CHR ''0'' \<and> tl s \<noteq> [] then None
      else digits_val 0 s)"

text \<open>
  \<open>Object.prototype.hasOwnProperty.call(d, k)\<close> for a value \<open>d\<close> that is neither
  \<open>null\<close> nor \<open>undefined\<close>: the keys of an object, the indices and \<open>length\<close> of
  an array or a string, nothing for a number or a boolean. The source never makes
  the call on \<open>null\<close> or \<open>undefined\<close> (it returns before).
\<close>

definition own_index :: "string \<Rightarrow> nat \<Rightarrow> bool" where
  "own_index k n = (case array_index k of None \<Rightarrow> False | Some i \<Rightarrow> i < n)"

fun hasOwnProperty :: "jsval \<Rightarrow> string \<Rightarrow> bool" where
  "hasOwnProperty (JObj kvs) k = (map_of kvs k \<noteq> None)"
| "hasOwnProperty (JArr xs) k = (k = ''length'' \<or> own_index k (length xs))"
| "hasOwnProperty (JStr s) k = (k = ''length'' \<or> own_index k (length s))"
| "hasOwnProperty _ k = False"

text \<open>\<open>d[k]\<close>, the property read; \<open>undefined\<close> where there is no such property.\<close>

fun getProperty :: "jsval \<Rightarrow> string \<Rightarrow> jsval" where
  "getProperty (JObj kvs) k = (case map_of kvs k of None \<Rightarrow> JUndefined | Some v \<Rightarrow> v)"
| "getProperty (JArr xs) k =
     (if k = ''length'' then JNum (int (length xs))
      else (case array_index k of
              None \<Rightarrow> JUndefined
            | Some i \<Rightarrow> if i < length xs then xs ! i else JUndefined))"
| "getProperty (JStr s) k =
     (if k = ''length'' then JNum (int (length s))
      else (case array_index k of
              None \<Rightarrow> JUndefined
            | Some i \<Rightarrow> if i < length s then JStr [s ! i] else JUndefined))"
| "getProperty _ k = JUndefined"

subsection \<open>Elements and their directives\<close>

text \<open>
  What \<open>new Element(el)\<close> (element.js) holds, as far as the component reads it. A
  binding that \<open>isEmpty\<close> accepts (the empty object) is \<open>None\<close>. A string that the
  source tests for truthiness (\<open>db.name\<close>, \<open>db.pk\<close>, \<open>action.key\<close>, \<open>id\<close>, \<open>key\<close>) is
  falsy when it is \<open>None\<close> or \<open>Some ''''\<close>. \<open>dbKey\<close> is what \<open>element.dbKey()\<close>
  returns.
\<close>

record model_binding =
  m_name :: string
  m_eventType :: string
  m_debounceTime :: int
  m_isLazy :: bool
  m_isDefer :: bool

record db_binding =
  db_name :: "string option"
  db_pk :: "string option"

record field_binding =
  f_name :: string
  f_eventType :: string
  f_isDefer :: bool

record action_binding =
  a_name :: string
  a_eventType :: string
  a_key :: "string option"
  a_isPrevent :: bool
  a_isStop :: bool

record poll_directive =
  pd_method :: string
  pd_timing :: int

record element =
  el :: nat
  isUnicorn :: bool
  model :: "model_binding option"
  db :: "db_binding option"
  field :: "field_binding option"
  actions :: "action_binding list"
  el_poll :: "poll_directive option"
  el_id :: "string option"
  el_key :: "string option"
  dbKey :: string

definition truthy :: "string option \<Rightarrow> bool" where
  "truthy s = (case s of None \<Rightarrow> False | Some t \<Rightarrow> t \<noteq> [])"

text \<open>\<open>element.model.debounceTime\<close>: \<open>undefined\<close> (\<open>None\<close>) on an empty model.\<close>

definition model_debounceTime :: "element \<Rightarrow> int option" where
  "model_debounceTime e = map_option m_debounceTime (model e)"

subsection \<open>Actions\<close>

text \<open>
  The three objects the source pushes on the queue, by their \<open>type\<close>:
  \<open>{name, value}\<close>, \<open>{db, pk, fields}\<close> and \<open>{name, params}\<close>. The last argument of
  \<open>CallMethod\<close> is the property \<open>value\<close> of its payload, which \<open>callMethod\<close> does
  not set (\<open>None\<close>) and a later assignment \<open>a.payload.value = ...\<close> can. \<open>fields\<close>
  is the list of its properties in the order they were first assigned.
\<close>

datatype action =
    SyncInput string jsval
  | DbInput string string "(string \<times> jsval) list"
  | CallMethod string "jsval list" "jsval option"

text \<open>\<open>a.payload.name\<close>, \<open>a.payload.db\<close>, \<open>a.payload.pk\<close>; \<open>None\<close> is \<open>undefined\<close>.\<close>

fun payload_name :: "action \<Rightarrow> string option" where
  "payload_name (SyncInput n v) = Some n"
| "payload_name (DbInput d p fs) = None"
| "payload_name (CallMethod n ps v) = Some n"

fun payload_db :: "action \<Rightarrow> string option" where
  "payload_db (DbInput d p fs) = Some d"
| "payload_db _ = None"

fun payload_pk :: "action \<Rightarrow> string option" where
  "payload_pk (DbInput d p fs) = Some p"
| "payload_pk _ = None"

text \<open>\<open>a.payload.value = v\<close>, on an action that has a \<open>name\<close>.\<close>

fun set_payload_value :: "jsval \<Rightarrow> action \<Rightarrow> action" where
  "set_payload_value v (SyncInput n w) = SyncInput n v"
| "set_payload_value v (CallMethod n ps w) = CallMethod n ps (Some v)"
| "set_payload_value v (DbInput d p fs) = DbInput d p fs"

text \<open>\<open>a.payload.fields[k] = v\<close>, on an action that has \<open>db\<close> and \<open>pk\<close>.\<close>

fun set_payload_field :: "string \<Rightarrow> jsval \<Rightarrow> action \<Rightarrow> action" where
  "set_payload_field k v (DbInput d p fs) = DbInput d p (AList.update k v fs)"
| "set_payload_field k v a = a"

subsection \<open>Closures\<close>

text \<open>
  \<open>HandleError timer\<close> is the function \<open>handleError\<close> of \<open>startPolling\<close> with the
  constant \<open>timer\<close> it closes over. The callbacks given to \<open>sendMessage\<close>:
  \<open>ModelCallback e\<close> and \<open>DbCallback e\<close> are the arrow functions inside the listeners
  of element \<open>e\<close>, \<open>MethodCallback errCallback\<close> the one inside \<open>callMethod\<close>.
\<close>

datatype err_callback = HandleError "nat option"

datatype callback =
    ModelCallback element
  | DbCallback element
  | MethodCallback "err_callback option"

datatype listener =
    ModelListener element
  | DbListener element

datatype doc_listener =
    ActionListener string
  | VisibilityListener

subsection \<open>The component and its surroundings\<close>

record poll_state =
  p_method :: string
  p_timing :: int
  p_timer :: "nat option"

record interval =
  iv_id :: nat
  iv_delay :: int
  iv_method :: string
  iv_errCallback :: err_callback

datatype call_site = ModelSite nat | DbSite nat | MethodSite

record window =
  w_site :: call_site
  w_wait :: "int option"
  w_callback :: callback

record request =
  r_actions :: "action list"
  r_callback :: callback

datatype effect =
    SetValue nat jsval
  | Focus nat
  | ConsoleError string

text \<open>
  The fields of the component that the modelled methods use, then the surroundings:
  \<open>markup\<close> is the sequence of nodes the walker visits from the root, each already
  read by \<open>new Element\<close>; \<open>elementListeners\<close> and \<open>documentListeners\<close> are the
  listeners added with \<open>addEventListener\<close>; \<open>intervals\<close> the running \<open>setInterval\<close>
  timers and \<open>nextTimer\<close> the next handle (handles are positive); \<open>hidden\<close> is
  \<open>document.hidden\<close>; \<open>effects\<close> is the log of the calls \<open>element.setValue\<close>,
  \<open>element.focus\<close> and \<open>console.error\<close>. \<open>windows\<close> and \<open>requests\<close> belong to
  \<open>debounce\<close> and \<open>send\<close> below.
\<close>

record component =
  data :: jsval
  root :: element
  modelEls :: "element list"
  dbEls :: "element list"
  poll :: "poll_state option"
  actionQueue :: "action list"
  lastTriggeringElements :: "element list"
  actionEvents :: "(string \<times> (action_binding \<times> element) list) list"
  attachedEventTypes :: "string list"
  markup :: "element list"
  elementListeners :: "(nat \<times> string \<times> listener) list"
  documentListeners :: "(string \<times> doc_listener) list"
  intervals :: "interval list"
  nextTimer :: nat
  hidden :: bool
  windows :: "window list"
  requests :: "request list"
  effects :: "effect list"

subsection \<open>Dispatch\<close>

text \<open>
  \<open>debounce\<close> (delayers.js) and \<open>send\<close> (messageSender.js) are not among the
  sources; what the component needs of them is taken from the spec (4.3, 5, 6).
\<close>

text \<open>
  Modelled from the spec: the call site of a dispatch, missing with \<open>debounce\<close>. The
  spec debounces per call site, with one window per field and one for method calls:
  the call site is the closure that called, the listener of one element or
  \<open>callMethod\<close>.
\<close>

fun site_of :: "callback \<Rightarrow> call_site" where
  "site_of (ModelCallback e) = ModelSite (el e)"
| "site_of (DbCallback e) = DbSite (el e)"
| "site_of (MethodCallback ec) = MethodSite"

text \<open>
  Modelled from the spec: \<open>send\<close> of messageSender.js, missing. It is an opaque network
  call that carries the action queue and invokes the callback once, later (the
  completion is \<open>run_callback\<close> below).
\<close>

definition send :: "callback \<Rightarrow> component \<Rightarrow> component" where
  "send cb st =
     st\<lparr>requests := requests st @ [\<lparr>r_actions = actionQueue st, r_callback = cb\<rparr>]\<rparr>"

text \<open>
  Modelled from the spec: \<open>debounce\<close> of delayers.js, missing, applied to \<open>send\<close> and
  called. Repeated calls within the debounce window collapse to one network call: a
  call opens a window for its call site, in place of the window that site has open.
  With \<open>immediate\<close> the call is made at once instead (the component never asks
  for that).
\<close>

definition debounce :: "int option \<Rightarrow> bool \<Rightarrow> callback \<Rightarrow> component \<Rightarrow> component" where
  "debounce wait immediate cb st =
     (if immediate then send cb st
      else st\<lparr>windows := filter (\<lambda>w. w_site w \<noteq> site_of cb) (windows st)
                  @ [\<lparr>w_site = site_of cb, w_wait = wait, w_callback = cb\<rparr>]\<rparr>)"

text \<open>
  Modelled from the spec: the end of a debounce window, missing with \<open>debounce\<close>. The
  one network call of the window is made, and carries the queue as it is then.
\<close>

definition window_elapses :: "call_site \<Rightarrow> component \<Rightarrow> component" where
  "window_elapses site st =
     (case filter (\<lambda>w. w_site w = site) (windows st) of
        [] \<Rightarrow> st
      | w # ws \<Rightarrow> send (w_callback w)
                   (st\<lparr>windows := filter (\<lambda>w. w_site w \<noteq> site) (windows st)\<rparr>))"

text \<open>
  \<open>sendMessage(debounceTime, callback)\<close>, lines 503-510. The argument is a number or
  \<open>undefined\<close> (\<open>None\<close>).
\<close>

definition sendMessage :: "int option \<Rightarrow> callback \<Rightarrow> component \<Rightarrow> component" where
  "sendMessage debounceTime cb st =
     (if debounceTime = Some (- 1) then debounce (Some 250) False cb st
      else debounce debounceTime False cb st)"

subsection \<open>Listeners of bound elements\<close>

text \<open>
  The \<open>forEach\<close> over the queue in the deferred branch of the model listener (lines
  161-166): every action whose \<open>payload.name\<close> is the name of the model gets the value;
  the flag \<open>foundAction\<close> is returned with the queue.
\<close>

fun update_existing_model :: "string \<Rightarrow> jsval \<Rightarrow> action list \<Rightarrow> action list \<times> bool" where
  "update_existing_model n v [] = ([], False)"
| "update_existing_model n v (a # as) =
     (let (as', found) = update_existing_model n v as
      in if payload_name a = Some n then (set_payload_value v a # as', True)
         else (a # as', found))"

text \<open>
  The listener that \<open>addModelEventListener\<close> adds (lines 148-191); \<open>v\<close> is what
  \<open>element.getValue()\<close> returns when the event fires. The listener is only ever
  added to an element with a model (line 267), so there is nothing to do for
  \<open>None\<close>.
\<close>

definition modelEventListener :: "element \<Rightarrow> jsval \<Rightarrow> component \<Rightarrow> component" where
  "modelEventListener element v st =
     (case model element of
        None \<Rightarrow> st
      | Some m \<Rightarrow>
          let action = SyncInput (m_name m) v in
          if m_isDefer m then
            (let (q, foundAction) = update_existing_model (m_name m) v (actionQueue st)
             in if \<not> foundAction
                then st\<lparr>actionQueue := q @ [action],
                        lastTriggeringElements := lastTriggeringElements st @ [element]\<rparr>
                else st\<lparr>actionQueue := q\<rparr>)
          else
            sendMessage (model_debounceTime element) (ModelCallback element)
              (st\<lparr>actionQueue := actionQueue st @ [action],
                  lastTriggeringElements := lastTriggeringElements st @ [element]\<rparr>))"

text \<open>
  The \<open>forEach\<close> over the queue in the deferred branch of the record listener (lines
  217-225): every action whose \<open>payload.db\<close> and \<open>payload.pk\<close> are those of the
  element gets the field.
\<close>

fun update_existing_db ::
  "string \<Rightarrow> string \<Rightarrow> string \<Rightarrow> jsval \<Rightarrow> action list \<Rightarrow> action list \<times> bool" where
  "update_existing_db d p k v [] = ([], False)"
| "update_existing_db d p k v (a # as) =
     (let (as', found) = update_existing_db d p k v as
      in if payload_db a = Some d \<and> payload_pk a = Some p
         then (set_payload_field k v a # as', True)
         else (a # as', found))"

text \<open>
  The listener that \<open>addDbEventListener\<close> adds (lines 195-247). An empty \<open>db\<close> has
  no \<open>name\<close>, so the listener returns at line 197. The listener is only ever added
  to an element with a field (line 277), so there is nothing to do for a field that
  is \<open>None\<close>. The debounce time is read from \<open>element.model\<close> (line 238).
\<close>

definition dbEventListener :: "element \<Rightarrow> jsval \<Rightarrow> component \<Rightarrow> component" where
  "dbEventListener element v st =
     (case db element of
        None \<Rightarrow> st
      | Some d \<Rightarrow>
          if \<not> truthy (db_name d) \<or> \<not> truthy (db_pk d) then st
          else
            (case field element of
               None \<Rightarrow> st
             | Some f \<Rightarrow>
                 let st1 = st\<lparr>lastTriggeringElements := lastTriggeringElements st @ [element]\<rparr>;
                     dn = the (db_name d);
                     pk = the (db_pk d);
                     action = DbInput dn pk [(f_name f, v)]
                 in if f_isDefer f then
                      (let (q, foundAction) =
                             update_existing_db dn pk (f_name f) v (actionQueue st1)
                       in if \<not> foundAction then st1\<lparr>actionQueue := q @ [action]\<rparr>
                          else st1\<lparr>actionQueue := q\<rparr>)
                    else
                      sendMessage (model_debounceTime element) (DbCallback element)
                        (st1\<lparr>actionQueue := actionQueue st1 @ [action]\<rparr>)))"

subsection \<open>Calling a method, polling\<close>

text \<open>\<open>callMethod(methodName, errCallback)\<close>, lines 308-325.\<close>

definition callMethod :: "string \<Rightarrow> err_callback option \<Rightarrow> component \<Rightarrow> component" where
  "callMethod methodName errCallback st =
     sendMessage (Some (- 1)) (MethodCallback errCallback)
       (st\<lparr>actionQueue := actionQueue st @ [CallMethod methodName [] None]\<rparr>)"

text \<open>
  \<open>setInterval(this.callMethod.bind(this), delay, method, handleError)\<close> and
  \<open>clearInterval\<close>. A handle is truthy when it is not \<open>null\<close> and not 0.
\<close>

definition setInterval ::
  "int \<Rightarrow> string \<Rightarrow> err_callback \<Rightarrow> component \<Rightarrow> nat \<times> component" where
  "setInterval delay method ec st =
     (nextTimer st,
      st\<lparr>intervals := intervals st
              @ [\<lparr>iv_id = nextTimer st, iv_delay = delay, iv_method = method,
                   iv_errCallback = ec\<rparr>],
         nextTimer := Suc (nextTimer st)\<rparr>)"

definition clearInterval :: "nat \<Rightarrow> component \<Rightarrow> component" where
  "clearInterval t st = st\<lparr>intervals := filter (\<lambda>i. iv_id i \<noteq> t) (intervals st)\<rparr>"

definition truthy_timer :: "nat option \<Rightarrow> bool" where
  "truthy_timer t = (case t of None \<Rightarrow> False | Some n \<Rightarrow> n \<noteq> 0)"

definition console_error :: "string \<Rightarrow> component \<Rightarrow> component" where
  "console_error e st = st\<lparr>effects := effects st @ [ConsoleError e]\<rparr>"

text \<open>
  \<open>handleError(err)\<close>, lines 362-369; \<open>timer\<close> is the constant of line 360. An error
  is a string, \<open>None\<close> for \<open>null\<close> or \<open>undefined\<close>.
\<close>

fun handleError :: "err_callback \<Rightarrow> string option \<Rightarrow> component \<Rightarrow> component" where
  "handleError (HandleError timer) err st =
     (let st1 = (if truthy err then console_error (the err) st else st)
      in if truthy_timer timer then clearInterval (the timer) st1 else st1)"

text \<open>
  \<open>startPolling()\<close>, lines 358-380. It is only called once \<open>initPolling\<close> has stored
  the directive of the root in \<open>this.poll\<close>.
\<close>

definition startPolling :: "component \<Rightarrow> component" where
  "startPolling st =
     (case poll st of
        None \<Rightarrow> st
      | Some p0 \<Rightarrow>
          let p = p0\<lparr>p_timer := None\<rparr>;
              st1 = st\<lparr>poll := Some p\<rparr>;
              timer = p_timer p;
              st2 = callMethod (p_method p) (Some (HandleError timer)) st1;
              (t, st3) = setInterval (p_timing p) (p_method p) (HandleError timer) st2
          in st3\<lparr>poll := Some (p\<lparr>p_timer := Some t\<rparr>)\<rparr>)"

text \<open>The listener of \<open>visibilitychange\<close>, lines 339-347.\<close>

definition visibilityListener :: "component \<Rightarrow> component" where
  "visibilityListener st =
     (if hidden st then
        (case poll st of
           None \<Rightarrow> st
         | Some p \<Rightarrow> if truthy_timer (p_timer p) then clearInterval (the (p_timer p)) st else st)
      else startPolling st)"

text \<open>\<open>initPolling()\<close>, lines 330-353; \<open>new Element(this.root)\<close> is \<open>root st\<close>.\<close>

definition initPolling :: "component \<Rightarrow> component" where
  "initPolling st =
     (let rootElement = root st in
      case el_poll rootElement of
        None \<Rightarrow> st
      | Some pd \<Rightarrow>
          if isUnicorn rootElement then
            startPolling
              (st\<lparr>poll := Some \<lparr>p_method = pd_method pd, p_timing = pd_timing pd,
                                p_timer = None\<rparr>,
                  documentListeners := documentListeners st
                    @ [(''visibilitychange'', VisibilityListener)]\<rparr>)
          else st)"

text \<open>The timer with handle \<open>t\<close> fires: the bound \<open>callMethod\<close> runs with its arguments.\<close>

definition interval_fires :: "nat \<Rightarrow> component \<Rightarrow> component" where
  "interval_fires t st =
     (case filter (\<lambda>i. iv_id i = t) (intervals st) of
        [] \<Rightarrow> st
      | i # is \<Rightarrow> callMethod (iv_method i) (Some (iv_errCallback i)) st)"

subsection \<open>Merging values into the elements\<close>

text \<open>
  The loop of \<open>setValue\<close> (lines 403-417) from index \<open>i\<close> on: the pieces still to
  visit and the local \<open>_data\<close> (here \<open>ldata\<close>). The result is the list of the calls
  \<open>element.setValue(...)\<close> made.
\<close>

fun setValue_loop :: "nat \<Rightarrow> string list \<Rightarrow> jsval \<Rightarrow> effect list" where
  "setValue_loop node [] ldata = []"
| "setValue_loop node (modelNamePiece # rest) ldata =
     (if ldata = JNull \<or> ldata = JUndefined then []
      else if hasOwnProperty ldata modelNamePiece then
        (if rest = [] then [SetValue node (getProperty ldata modelNamePiece)]
         else setValue_loop node rest (getProperty ldata modelNamePiece))
      else setValue_loop node rest ldata)"

text \<open>\<open>setValue(element)\<close>, lines 393-418.\<close>

definition setValue :: "element \<Rightarrow> component \<Rightarrow> component" where
  "setValue element st =
     (case model element of
        None \<Rightarrow> st
      | Some m \<Rightarrow>
          st\<lparr>effects := effects st
                @ setValue_loop (el element) (split_on CHR ''.'' (m_name m)) (data st)\<rparr>)"

text \<open>\<open>triggeringElements.slice(-1)[0]\<close>: the last one, \<open>undefined\<close> when there is none.\<close>

definition last_element :: "element list \<Rightarrow> element option" where
  "last_element es = (if es = [] then None else Some (last es))"

text \<open>
  The inner \<open>forEach\<close> of lines 468-478 for one attribute: the elements focused, and
  the flag \<open>elementFocused\<close> after the loop.
\<close>

fun focus_scan ::
  "(element \<Rightarrow> string option) \<Rightarrow> element \<Rightarrow> element list \<Rightarrow> bool \<Rightarrow> effect list \<times> bool" where
  "focus_scan attr lastTriggeringElement [] elementFocused = ([], elementFocused)"
| "focus_scan attr lastTriggeringElement (element # es) elementFocused =
     (if \<not> elementFocused \<and> truthy (attr lastTriggeringElement)
           \<and> attr lastTriggeringElement = attr element
      then (let (fx, f) = focus_scan attr lastTriggeringElement es True
            in (Focus (el element) # fx, f))
      else focus_scan attr lastTriggeringElement es elementFocused)"

text \<open>Lines 458-481: the calls of \<open>focus\<close> that \<open>setModelValues\<close> makes.\<close>

definition restore_focus :: "element list \<Rightarrow> element list \<Rightarrow> effect list" where
  "restore_focus els triggeringElements =
     (if length triggeringElements > 0 then
        (case last_element triggeringElements of
           None \<Rightarrow> []
         | Some lastTriggeringElement \<Rightarrow>
             (case model lastTriggeringElement of
                None \<Rightarrow> []
              | Some m \<Rightarrow>
                  if \<not> m_isLazy m then
                    (let (fx1, f1) = focus_scan el_id lastTriggeringElement els False;
                         (fx2, f2) = focus_scan el_key lastTriggeringElement els f1
                     in fx1 @ fx2)
                  else []))
      else [])"

text \<open>The inner \<open>forEach\<close> of lines 486-490: the flag \<open>shouldSetValue\<close> after it.\<close>

fun shouldSetValue :: "element \<Rightarrow> element list \<Rightarrow> bool \<Rightarrow> bool" where
  "shouldSetValue element [] flag = flag"
| "shouldSetValue element (triggeringElement # ts) flag =
     (if el element \<noteq> el triggeringElement then shouldSetValue element ts True
      else shouldSetValue element ts flag)"

text \<open>Lines 483-497, for one element of \<open>modelEls\<close>.\<close>

definition set_model_value :: "element list \<Rightarrow> element \<Rightarrow> component \<Rightarrow> component" where
  "set_model_value triggeringElements element st =
     (if shouldSetValue element triggeringElements False \<or> length triggeringElements = 0
      then setValue element st else st)"

text \<open>
  \<open>setModelValues(triggeringElements)\<close>, lines 453-498; an argument that is
  \<open>undefined\<close> is the empty list (line 454).
\<close>

definition setModelValues :: "element list \<Rightarrow> component \<Rightarrow> component" where
  "setModelValues triggeringElements st =
     (let st1 = st\<lparr>effects := effects st @ restore_focus (modelEls st) triggeringElements\<rparr>
      in fold (set_model_value triggeringElements) (modelEls st1) st1)"

text \<open>
  \<open>setDbModelValues(triggeringElements, dbUpdates)\<close>, lines 425-447. \<open>dbUpdates\<close> is
  an object of objects, \<open>{}\<close> when the argument is \<open>undefined\<close>; its keys are compared
  with \<open>element.dbKey()\<close>.
\<close>

definition object_keys :: "(string \<times> 'a) list \<Rightarrow> string list" where
  "object_keys kvs = remdups (map fst kvs)"

definition set_db_value ::
  "element option \<Rightarrow> (string \<times> (string \<times> jsval) list) list \<Rightarrow> element \<Rightarrow> effect list" where
  "set_db_value lastTriggeringElement dbUpdates element =
     (if (case lastTriggeringElement of None \<Rightarrow> True | Some l \<Rightarrow> el l \<noteq> el element) then
        concat (map (\<lambda>key.
          if dbKey element = key then
            (case map_of dbUpdates key of
               None \<Rightarrow> []
             | Some upd \<Rightarrow>
                 concat (map (\<lambda>fieldName.
                   if map_option f_name (field element) = Some fieldName
                   then (case map_of upd fieldName of
                           None \<Rightarrow> []
                         | Some v \<Rightarrow> [SetValue (el element) v])
                   else []) (object_keys upd)))
          else []) (object_keys dbUpdates))
      else [])"

definition setDbModelValues ::
  "element list \<Rightarrow> (string \<times> (string \<times> jsval) list) list \<Rightarrow> component \<Rightarrow> component" where
  "setDbModelValues triggeringElements dbUpdates st =
     st\<lparr>effects := effects st
           @ concat (map (set_db_value (last_element triggeringElements) dbUpdates)
                       (dbEls st))\<rparr>"

subsection \<open>Completion of a network call\<close>

text \<open>
  The callback of a send is invoked with \<open>(triggeringElements, dbUpdates, err)\<close>:
  lines 182-189, 239-245 and 315-324.
\<close>

fun run_callback ::
  "callback \<Rightarrow> element list \<Rightarrow> (string \<times> (string \<times> jsval) list) list
     \<Rightarrow> string option \<Rightarrow> component \<Rightarrow> component" where
  "run_callback (ModelCallback e) triggeringElements dbUpdates err st =
     (if truthy err then console_error (the err) st
      else setDbModelValues triggeringElements []
             (setModelValues triggeringElements st))"
| "run_callback (DbCallback e) triggeringElements dbUpdates err st =
     (if truthy err then console_error (the err) st
      else setDbModelValues triggeringElements dbUpdates st)"
| "run_callback (MethodCallback errCallback) triggeringElements dbUpdates err st =
     (if truthy err \<and> errCallback \<noteq> None then handleError (the errCallback) err st
      else if truthy err then console_error (the err) st
      else setDbModelValues triggeringElements []
             (setModelValues triggeringElements st))"

subsection \<open>The listener registry\<close>

text \<open>
  \<open>addModelEventListener\<close>, \<open>addDbEventListener\<close> and \<open>addActionEventListener\<close> as far
  as registration goes: each call of \<open>addEventListener\<close> gets a new function, so the
  browser keeps every one of them. (What the listeners of elements do when they fire
  is \<open>modelEventListener\<close> and \<open>dbEventListener\<close> above.)
\<close>

definition addModelEventListener :: "element \<Rightarrow> string \<Rightarrow> component \<Rightarrow> component" where
  "addModelEventListener element eventType st =
     st\<lparr>elementListeners := elementListeners st
           @ [(el element, eventType, ModelListener element)]\<rparr>"

definition addDbEventListener :: "element \<Rightarrow> string \<Rightarrow> component \<Rightarrow> component" where
  "addDbEventListener element eventType st =
     st\<lparr>elementListeners := elementListeners st
           @ [(el element, eventType, DbListener element)]\<rparr>"

definition addActionEventListener :: "string \<Rightarrow> component \<Rightarrow> component" where
  "addActionEventListener eventType st =
     st\<lparr>documentListeners := documentListeners st @ [(eventType, ActionListener eventType)]\<rparr>"

text \<open>Lines 286-300, for one action of the element.\<close>

definition register_action :: "element \<Rightarrow> action_binding \<Rightarrow> component \<Rightarrow> component" where
  "register_action element action st =
     (case map_of (actionEvents st) (a_eventType action) of
        Some evs \<Rightarrow>
          st\<lparr>actionEvents :=
               AList.update (a_eventType action) (evs @ [(action, element)]) (actionEvents st)\<rparr>
      | None \<Rightarrow>
          (let st1 = st\<lparr>actionEvents :=
                 AList.update (a_eventType action) [(action, element)] (actionEvents st)\<rparr>
           in if length (filter (\<lambda>et. et = a_eventType action) (attachedEventTypes st1)) = 0
              then addActionEventListener (a_eventType action)
                     (st1\<lparr>attachedEventTypes :=
                           attachedEventTypes st1 @ [a_eventType action]\<rparr>)
              else st1))"

text \<open>The callback given to the walker (lines 258-302), for one node.\<close>

definition refresh_node :: "element \<Rightarrow> component \<Rightarrow> component" where
  "refresh_node element st =
     (if el element = el (root st) then st
      else if isUnicorn element then
        (let st1 =
               (if model element \<noteq> None
                     \<and> length (filter (\<lambda>e. el e = el element) (modelEls st)) = 0
                then addModelEventListener element (m_eventType (the (model element)))
                       (st\<lparr>modelEls := modelEls st @ [element]\<rparr>)
                else st);
             st2 =
               (if db element \<noteq> None \<and> field element \<noteq> None
                     \<and> length (filter (\<lambda>e. el e = el element) (dbEls st1)) = 0
                then addDbEventListener element (f_eventType (the (field element)))
                       (st1\<lparr>dbEls := dbEls st1 @ [element]\<rparr>)
                else st1)
         in fold (register_action element) (actions element) st2)
      else st)"

text \<open>\<open>refreshEventListeners()\<close>, lines 253-303.\<close>

definition refreshEventListeners :: "component \<Rightarrow> component" where
  "refreshEventListeners st =
     fold refresh_node (markup st)
       (st\<lparr>actionEvents := [], modelEls := [], dbEls := []\<rparr>)"

text \<open>
  An event of type \<open>eventType\<close> on node \<open>n\<close>: the listeners added to that node for
  that type run in the order they were added; \<open>v\<close> is the value of the element.
\<close>

fun run_listener :: "listener \<Rightarrow> jsval \<Rightarrow> component \<Rightarrow> component" where
  "run_listener (ModelListener e) v st = modelEventListener e v st"
| "run_listener (DbListener e) v st = dbEventListener e v st"

definition fire_event :: "nat \<Rightarrow> string \<Rightarrow> jsval \<Rightarrow> component \<Rightarrow> component" where
  "fire_event n eventType v st =
     fold (\<lambda>(n', t, l) s. if n' = n \<and> t = eventType then run_listener l v s else s)
       (elementListeners st) st"

subsection \<open>Construction\<close>

text \<open>
  The constructor, lines 10-43, for the fields above: \<open>init\<close> throws when the root
  is not found. The surroundings start with no listener, no timer and a visible
  document.
\<close>

datatype error = NoIdFound

definition blank :: "jsval \<Rightarrow> element \<Rightarrow> element list \<Rightarrow> component" where
  "blank d r nodes =
     \<lparr>data = d, root = r, modelEls = [], dbEls = [], poll = None, actionQueue = [],
      lastTriggeringElements = [], actionEvents = [], attachedEventTypes = [],
      markup = nodes, elementListeners = [], documentListeners = [], intervals = [],
      nextTimer = 1, hidden = False, windows = [], requests = [], effects = []\<rparr>"

definition new_Component :: "jsval \<Rightarrow> element option \<Rightarrow> element list \<Rightarrow> error + component" where
  "new_Component d r nodes =
     (case r of
        None \<Rightarrow> Inl NoIdFound
      | Some rt \<Rightarrow> Inr (initPolling (refreshEventListeners (blank d rt nodes))))"

subsection \<open>Vocabulary of the statements\<close>

text \<open>An action carries the name \<open>n\<close>; the assignment of line 163 to such an action.\<close>

definition has_name :: "string \<Rightarrow> action \<Rightarrow> bool" where
  "has_name n a = (payload_name a = Some n)"

definition overwrite_named :: "string \<Rightarrow> jsval \<Rightarrow> action \<Rightarrow> action" where
  "overwrite_named n v a = (if payload_name a = Some n then set_payload_value v a else a)"

text \<open>An action carries the record \<open>(d, p)\<close>; the assignment of line 222 to such an action.\<close>

definition has_record :: "string \<Rightarrow> string \<Rightarrow> action \<Rightarrow> bool" where
  "has_record d p a = (payload_db a = Some d \<and> payload_pk a = Some p)"

definition merge_field :: "string \<Rightarrow> string \<Rightarrow> string \<Rightarrow> jsval \<Rightarrow> action \<Rightarrow> action" where
  "merge_field d p k v a =
     (if payload_db a = Some d \<and> payload_pk a = Some p then set_payload_field k v a else a)"

text \<open>
  An element whose model is deferred and named \<open>n\<close>; an element bound to the field
  \<open>k\<close> of the record \<open>(d, p)\<close>, deferred or not.
\<close>

definition deferred_model :: "string \<Rightarrow> element \<Rightarrow> bool" where
  "deferred_model n e =
     (case model e of None \<Rightarrow> False | Some m \<Rightarrow> m_isDefer m \<and> m_name m = n)"

definition record_field :: "string \<Rightarrow> string \<Rightarrow> bool \<Rightarrow> element \<Rightarrow> bool" where
  "record_field d p defer e =
     (d \<noteq> [] \<and> p \<noteq> [] \<and>
      (case db e of
         None \<Rightarrow> False
       | Some b \<Rightarrow> db_name b = Some d \<and> db_pk b = Some p) \<and>
      (case field e of None \<Rightarrow> False | Some f \<Rightarrow> f_isDefer f = defer))"

definition field_name :: "element \<Rightarrow> string" where
  "field_name e = (case field e of None \<Rightarrow> [] | Some f \<Rightarrow> f_name f)"

text \<open>
  The fields of a sequence of record events, in order; all of them assigned to an
  action of the record \<open>(d, p)\<close>; all of them assigned to an empty \<open>fields\<close>.
\<close>

definition fields_of :: "(element \<times> jsval) list \<Rightarrow> (string \<times> jsval) list" where
  "fields_of evs = map (\<lambda>(e, v). (field_name e, v)) evs"

definition merge_fields ::
  "string \<Rightarrow> string \<Rightarrow> (string \<times> jsval) list \<Rightarrow> action \<Rightarrow> action" where
  "merge_fields d p kvs a = fold (\<lambda>(k, v). merge_field d p k v) kvs a"

definition merged_fields :: "(string \<times> jsval) list \<Rightarrow> (string \<times> jsval) list" where
  "merged_fields kvs = fold (\<lambda>(k, v). AList.update k v) kvs []"

text \<open>The events of a sequence, each an element and the value it has then.\<close>

definition model_events :: "(element \<times> jsval) list \<Rightarrow> component \<Rightarrow> component" where
  "model_events evs st = fold (\<lambda>(e, v). modelEventListener e v) evs st"

definition db_events :: "(element \<times> jsval) list \<Rightarrow> component \<Rightarrow> component" where
  "db_events evs st = fold (\<lambda>(e, v). dbEventListener e v) evs st"

text \<open>
  The resolution of a dotted path in the words of the spec (4.4), for comparison with
  the loop of \<open>setValue\<close>: one segment at a time, and nothing as soon as a segment is
  absent.
\<close>

fun spec_resolve_path :: "string list \<Rightarrow> jsval \<Rightarrow> jsval option" where
  "spec_resolve_path [] d = None"
| "spec_resolve_path (p # ps) d =
     (if d = JNull \<or> d = JUndefined then None
      else if \<not> hasOwnProperty d p then None
      else if ps = [] then Some (getProperty d p)
      else spec_resolve_path ps (getProperty d p))"

text \<open>A sequence of calls of \<open>callMethod\<close>, and the actions it enqueues.\<close>

definition method_calls :: "(string \<times> err_callback option) list \<Rightarrow> component \<Rightarrow> component" where
  "method_calls calls st = fold (\<lambda>(m, ec). callMethod m ec) calls st"

definition call_actions :: "(string \<times> err_callback option) list \<Rightarrow> action list" where
  "call_actions calls = map (\<lambda>(m, ec). CallMethod m [] None) calls"

text \<open>The first element of a list that has the attribute of \<open>l\<close>, where \<open>l\<close> has it.\<close>

definition attr_match ::
  "(element \<Rightarrow> string option) \<Rightarrow> element \<Rightarrow> element list \<Rightarrow> element option" where
  "attr_match attr l els = find (\<lambda>e. truthy (attr l) \<and> attr l = attr e) els"

text \<open>
  An element with a model that is not lazy; the call of \<open>focus\<close> on an element, if any.
\<close>

definition bound_not_lazy :: "element \<Rightarrow> bool" where
  "bound_not_lazy e = (case model e of None \<Rightarrow> False | Some m \<Rightarrow> \<not> m_isLazy m)"

definition focus_of :: "element option \<Rightarrow> effect list" where
  "focus_of t = (case t of None \<Rightarrow> [] | Some e \<Rightarrow> [Focus (el e)])"

fun is_Focus :: "effect \<Rightarrow> bool" where
  "is_Focus (Focus n) = True"
| "is_Focus _ = False"

subsection \<open>Elements used in the examples\<close>

definition bound_input :: "nat \<Rightarrow> string \<Rightarrow> bool \<Rightarrow> bool \<Rightarrow> element" where
  "bound_input n name lazy defer =
     \<lparr>el = n, isUnicorn = True,
      model = Some \<lparr>m_name = name, m_eventType = ''input'', m_debounceTime = - 1,
                    m_isLazy = lazy, m_isDefer = defer\<rparr>,
      db = None, field = None, actions = [], el_poll = None, el_id = None, el_key = None,
      dbKey = []\<rparr>"

definition record_input :: "nat \<Rightarrow> string \<Rightarrow> string \<Rightarrow> string \<Rightarrow> bool \<Rightarrow> element" where
  "record_input n d p k defer =
     \<lparr>el = n, isUnicorn = True, model = None,
      db = Some \<lparr>db_name = Some d, db_pk = Some p\<rparr>,
      field = Some \<lparr>f_name = k, f_eventType = ''input'', f_isDefer = defer\<rparr>,
      actions = [], el_poll = None, el_id = None, el_key = None, dbKey = d @ '':'' @ p\<rparr>"

text \<open>The same input, not deferred, with a model whose debounce time is \<open>t\<close>.\<close>

definition record_input_with_model :: "nat \<Rightarrow> string \<Rightarrow> string \<Rightarrow> string \<Rightarrow> int \<Rightarrow> element" where
  "record_input_with_model n d p k t =
     (record_input n d p k False)
       \<lparr>model := Some \<lparr>m_name = k, m_eventType = ''input'', m_debounceTime = t,
                        m_isLazy = False, m_isDefer = False\<rparr>\<rparr>"

definition root_element :: "poll_directive option \<Rightarrow> element" where
  "root_element pd =
     \<lparr>el = 0, isUnicorn = True, model = None, db = None, field = None, actions = [],
      el_poll = pd, el_id = None, el_key = None, dbKey = []\<rparr>"

definition empty_page :: component where
  "empty_page = blank (JObj []) (root_element None) []"

text \<open>A button with one action, and an input with an \<open>id\<close>.\<close>

definition action_button :: "nat \<Rightarrow> string \<Rightarrow> string \<Rightarrow> element" where
  "action_button n eventType method =
     \<lparr>el = n, isUnicorn = True, model = None, db = None, field = None,
      actions = [\<lparr>a_name = method, a_eventType = eventType, a_key = None,
                  a_isPrevent = False, a_isStop = False\<rparr>],
      el_poll = None, el_id = None, el_key = None, dbKey = []\<rparr>"

definition input_with_id :: "nat \<Rightarrow> string \<Rightarrow> string \<Rightarrow> element" where
  "input_with_id n name i = (bound_input n name False False)\<lparr>el_id := Some i\<rparr>"

text \<open>
  A page whose root polls \<open>refresh\<close> every 5000 ms; a page with one input and one
  button; a page with three inputs and server data for each.
\<close>

definition polling_page :: component where
  "polling_page =
     blank (JObj []) (root_element (Some \<lparr>pd_method = ''refresh'', pd_timing = 5000\<rparr>)) []"

definition form_page :: component where
  "form_page =
     blank (JObj []) (root_element None)
       [bound_input 1 ''name'' False False, action_button 2 ''click'' ''save'']"

definition three_inputs :: component where
  "three_inputs =
     refreshEventListeners
       (blank (JObj [(''a'', JStr ''x''), (''b'', JStr ''y''), (''c'', JStr ''z'')])
          (root_element None)
          [bound_input 1 ''a'' False False, bound_input 2 ''b'' False False,
           bound_input 3 ''c'' False False])"

section \<open>The action queue: model inputs\<close>

lemma update_existing_model_eq:
  "update_existing_model n v q = (map (overwrite_named n v) q, list_ex (has_name n) q)"
  by (induction q) (auto simp: overwrite_named_def has_name_def)

lemma overwrite_named_absent:
  "\<not> list_ex (has_name n) q \<Longrightarrow> map (overwrite_named n v) q = q"
  by (induction q) (auto simp: overwrite_named_def has_name_def)

lemma deferred_model_step:
  assumes "deferred_model n e"
  shows "modelEventListener e v st =
     (if list_ex (has_name n) (actionQueue st)
      then st\<lparr>actionQueue := map (overwrite_named n v) (actionQueue st)\<rparr>
      else st\<lparr>actionQueue := actionQueue st @ [SyncInput n v],
              lastTriggeringElements := lastTriggeringElements st @ [e]\<rparr>)"
  using assms
  by (auto simp: deferred_model_def modelEventListener_def update_existing_model_eq
      overwrite_named_absent
      split: option.splits)

lemma filter_absent:
  "\<not> list_ex P q \<Longrightarrow> filter P q = []"
  by (induction q) auto

lemma deferred_model_queue_tail:
  assumes "deferred_model n e" and "\<not> list_ex (has_name n) q"
    and "actionQueue st = q @ [SyncInput n w]"
  shows "actionQueue (modelEventListener e v st) = q @ [SyncInput n v]"
  using assms
  by (simp add: deferred_model_step overwrite_named_absent)
     (simp add: overwrite_named_def has_name_def)

lemma deferred_model_fold_tail:
  assumes "list_all (\<lambda>(e, v). deferred_model n e) evs" and "\<not> list_ex (has_name n) q"
    and "actionQueue st = q @ [SyncInput n w]"
  shows "actionQueue (model_events evs st) = q @ [SyncInput n (last (w # map snd evs))]"
  using assms
proof (induction evs arbitrary: st w)
  case Nil
  then show ?case by (simp add: model_events_def)
next
  case (Cons ev evs)
  obtain e v where ev: "ev = (e, v)" by (cases ev)
  from Cons.prems ev have d: "deferred_model n e" by simp
  have q1: "actionQueue (modelEventListener e v st) = q @ [SyncInput n v]"
    using deferred_model_queue_tail [OF d Cons.prems(2) Cons.prems(3)] .
  from Cons.prems(1) have rest: "list_all (\<lambda>(e, v). deferred_model n e) evs" by simp
  show ?case
    using Cons.IH [OF rest Cons.prems(2) q1] ev by (simp add: model_events_def)
qed

lemma has_name_overwrite [simp]: "has_name n (overwrite_named n v a) = has_name n a"
  by (cases a) (auto simp: has_name_def overwrite_named_def)

lemma overwrite_named_twice [simp]:
  "overwrite_named n v (overwrite_named n w a) = overwrite_named n v a"
  by (cases a) (auto simp: overwrite_named_def)

lemma list_ex_map_overwrite [simp]:
  "list_ex (has_name n) (map (overwrite_named n v) q) = list_ex (has_name n) q"
  by (induction q) auto

lemma deferred_model_fold_found:
  assumes "list_all (\<lambda>(e, v). deferred_model n e) evs" and "evs \<noteq> []"
    and "list_ex (has_name n) (actionQueue st)"
  shows "actionQueue (model_events evs st)
         = map (overwrite_named n (snd (last evs))) (actionQueue st)"
  using assms
proof (induction evs arbitrary: st)
  case Nil
  then show ?case by simp
next
  case (Cons ev evs)
  obtain e v where ev: "ev = (e, v)" by (cases ev)
  from Cons.prems ev have d: "deferred_model n e" by simp
  have q1: "actionQueue (modelEventListener e v st) = map (overwrite_named n v) (actionQueue st)"
    using Cons.prems(3) by (simp add: deferred_model_step [OF d])
  show ?case
  proof (cases "evs = []")
    case True
    then show ?thesis using q1 ev by (simp add: model_events_def)
  next
    case False
    from Cons.prems(1) have rest: "list_all (\<lambda>(e, v). deferred_model n e) evs" by simp
    have ex: "list_ex (has_name n) (actionQueue (modelEventListener e v st))"
      using q1 Cons.prems(3) by simp
    have "actionQueue (model_events evs (modelEventListener e v st))
          = map (overwrite_named n (snd (last evs))) (actionQueue (modelEventListener e v st))"
      using Cons.IH [OF rest False ex] .
    then show ?thesis using q1 ev False by (simp add: model_events_def)
  qed
qed

text \<open>
  C1, as stated, fails: two events on an input whose model is not deferred leave two
  \<open>syncInput\<close> entries for the same name (line 177 pushes without a scan).
\<close>

theorem C1_counterexample:
  "actionQueue
     (model_events
        [(bound_input 1 ''name'' False False, JStr ''a''),
         (bound_input 1 ''name'' False False, JStr ''b'')] empty_page)
   = [SyncInput ''name'' (JStr ''a''), SyncInput ''name'' (JStr ''b'')]"
  by (simp add: model_events_def modelEventListener_def bound_input_def empty_page_def
      blank_def sendMessage_def debounce_def model_debounceTime_def)

text \<open>
  C1, amended: for every non-empty sequence of events on elements whose model is
  deferred and has the name \<open>n\<close>, the queue is scanned for entries whose payload name
  is \<open>n\<close>; where there are some, each of them has its value overwritten in place, with
  the most recent value at the end, and nothing is appended; where there is none, one
  \<open>syncInput\<close> is appended, and at the end it is the only entry for \<open>n\<close> and holds the
  most recent value.
\<close>

theorem C1_deferred_coalesce:
  assumes "list_all (\<lambda>(e, v). deferred_model n e) evs" and "evs \<noteq> []"
  shows "actionQueue (model_events evs st)
         = (if list_ex (has_name n) (actionQueue st)
            then map (overwrite_named n (snd (last evs))) (actionQueue st)
            else actionQueue st @ [SyncInput n (snd (last evs))])
       \<and> (\<not> list_ex (has_name n) (actionQueue st) \<longrightarrow>
            filter (has_name n) (actionQueue (model_events evs st))
            = [SyncInput n (snd (last evs))])"
proof (cases "list_ex (has_name n) (actionQueue st)")
  case True
  then show ?thesis using deferred_model_fold_found [OF assms True] by simp
next
  case False
  obtain e v rest where evs: "evs = (e, v) # rest" using assms(2) by (cases evs) auto
  from assms(1) evs have d: "deferred_model n e"
    and r: "list_all (\<lambda>(e, v). deferred_model n e) rest" by simp_all
  have q1: "actionQueue (modelEventListener e v st) = actionQueue st @ [SyncInput n v]"
    using False by (simp add: deferred_model_step [OF d])
  have "actionQueue (model_events rest (modelEventListener e v st))
        = actionQueue st @ [SyncInput n (last (v # map snd rest))]"
    using deferred_model_fold_tail [OF r False q1] .
  moreover have "model_events evs st = model_events rest (modelEventListener e v st)"
    using evs by (simp add: model_events_def)
  moreover have "last (v # map snd rest) = snd (last evs)"
    using evs by (simp add: last_map)
  ultimately show ?thesis
    using False filter_absent [OF False] by (simp add: has_name_def)
qed

text \<open>
  Two deferred events on the input \<open>name\<close> of an empty page.
\<close>

theorem C1_deferred_coalesce_witness:
  "actionQueue
     (model_events
        [(bound_input 1 ''name'' False True, JStr ''a''),
         (bound_input 1 ''name'' False True, JStr ''ab'')] empty_page)
   = [SyncInput ''name'' (JStr ''ab'')]
   \<and> filter (has_name ''name'')
       (actionQueue
          (model_events
             [(bound_input 1 ''name'' False True, JStr ''a''),
              (bound_input 1 ''name'' False True, JStr ''ab'')] empty_page))
     = [SyncInput ''name'' (JStr ''ab'')]"
proof -
  have a: "list_all (\<lambda>(e, v). deferred_model ''name'' e)
             [(bound_input 1 ''name'' False True, JStr ''a''),
              (bound_input 1 ''name'' False True, JStr ''ab'')]"
    by (simp add: deferred_model_def bound_input_def)
  have c: "actionQueue empty_page = []"
    by (simp add: empty_page_def blank_def)
  show ?thesis
    using C1_deferred_coalesce [OF a, of empty_page] c by (simp add: has_name_def)
qed

section \<open>The action queue: record inputs\<close>

lemma update_existing_db_eq:
  "update_existing_db d p k v q = (map (merge_field d p k v) q, list_ex (has_record d p) q)"
  by (induction q) (auto simp: merge_field_def has_record_def)

lemma merge_field_absent:
  "\<not> list_ex (has_record d p) q \<Longrightarrow> map (merge_field d p k v) q = q"
  by (induction q) (auto simp: merge_field_def has_record_def)

lemma has_record_merge [simp]: "has_record d p (merge_field d p k v a) = has_record d p a"
  by (cases a) (auto simp: has_record_def merge_field_def)

lemma list_ex_map_merge [simp]:
  "list_ex (has_record d p) (map (merge_field d p k v) q) = list_ex (has_record d p) q"
  by (induction q) auto

lemma deferred_db_step:
  assumes "record_field d p True e"
  shows "dbEventListener e v st =
     (if list_ex (has_record d p) (actionQueue st)
      then st\<lparr>lastTriggeringElements := lastTriggeringElements st @ [e],
              actionQueue := map (merge_field d p (field_name e) v) (actionQueue st)\<rparr>
      else st\<lparr>lastTriggeringElements := lastTriggeringElements st @ [e],
              actionQueue := actionQueue st @ [DbInput d p [(field_name e, v)]]\<rparr>)"
  using assms
  by (auto simp: record_field_def dbEventListener_def update_existing_db_eq truthy_def
      field_name_def merge_field_absent Let_def split: option.splits)

lemma db_fold_found:
  assumes "list_all (\<lambda>(e, v). record_field d p True e) evs"
    and "list_ex (has_record d p) (actionQueue st)"
  shows "actionQueue (db_events evs st)
         = map (merge_fields d p (fields_of evs)) (actionQueue st)"
  using assms
proof (induction evs arbitrary: st)
  case Nil
  then show ?case by (simp add: db_events_def fields_of_def merge_fields_def)
next
  case (Cons ev evs)
  obtain e v where ev: "ev = (e, v)" by (cases ev)
  from Cons.prems ev have d: "record_field d p True e" by simp
  have q1: "actionQueue (dbEventListener e v st)
            = map (merge_field d p (field_name e) v) (actionQueue st)"
    using Cons.prems(2) by (simp add: deferred_db_step [OF d])
  from Cons.prems(1) have rest: "list_all (\<lambda>(e, v). record_field d p True e) evs" by simp
  have ex: "list_ex (has_record d p) (actionQueue (dbEventListener e v st))"
    using q1 Cons.prems(2) by simp
  have "actionQueue (db_events evs (dbEventListener e v st))
        = map (merge_fields d p (fields_of evs)) (actionQueue (dbEventListener e v st))"
    using Cons.IH [OF rest ex] .
  then show ?case
    using q1 ev by (simp add: db_events_def fields_of_def merge_fields_def)
qed

lemma merge_fields_absent:
  "\<not> list_ex (has_record d p) q \<Longrightarrow> map (merge_fields d p kvs) q = q"
proof (induction kvs arbitrary: q)
  case Nil
  then show ?case by (simp add: merge_fields_def)
next
  case (Cons kv kvs)
  obtain k v where kv: "kv = (k, v)" by (cases kv)
  have "map (merge_fields d p (kv # kvs)) q
        = map (merge_fields d p kvs) (map (merge_field d p k v) q)"
    using kv by (simp add: merge_fields_def)
  then show ?case using Cons by (simp add: merge_field_absent)
qed

lemma merge_fields_DbInput:
  "merge_fields d p kvs (DbInput d p fs) = DbInput d p (fold (\<lambda>(k, v). AList.update k v) kvs fs)"
proof (induction kvs arbitrary: fs)
  case Nil
  then show ?case by (simp add: merge_fields_def)
next
  case (Cons kv kvs)
  obtain k v where kv: "kv = (k, v)" by (cases kv)
  have "merge_fields d p (kv # kvs) (DbInput d p fs)
        = merge_fields d p kvs (DbInput d p (AList.update k v fs))"
    using kv by (simp add: merge_fields_def merge_field_def)
  then show ?case using Cons kv by simp
qed

lemma map_of_fold_update:
  "map_of (fold (\<lambda>(k, v). AList.update k v) kvs fs) = map_of fs ++ map_of (rev kvs)"
proof (induction kvs arbitrary: fs)
  case Nil
  then show ?case by simp
next
  case (Cons kv kvs)
  obtain k v where kv: "kv = (k, v)" by (cases kv)
  have "map_of (fold (\<lambda>(k, v). AList.update k v) (kv # kvs) fs)
        = map_of (AList.update k v fs) ++ map_of (rev kvs)"
    using Cons kv by simp
  also have "\<dots> = map_of fs ++ map_of (rev (kv # kvs))"
    using kv by (auto simp: update_conv' map_add_def fun_eq_iff split: option.splits)
  finally show ?case .
qed

lemma map_of_merged_fields: "map_of (merged_fields kvs) = map_of (rev kvs)"
  by (simp add: merged_fields_def map_of_fold_update)

text \<open>
  C2, as stated, fails: two events on elements bound to fields of the same record,
  not deferred, leave two \<open>dbInput\<close> entries for the record (line 235 pushes without
  a scan).
\<close>

theorem C2_counterexample:
  "actionQueue
     (db_events
        [(record_input 1 ''book'' ''7'' ''title'' False, JStr ''a''),
         (record_input 2 ''book'' ''7'' ''author'' False, JStr ''b'')] empty_page)
   = [DbInput ''book'' ''7'' [(''title'', JStr ''a'')],
      DbInput ''book'' ''7'' [(''author'', JStr ''b'')]]"
  by (simp add: db_events_def dbEventListener_def record_input_def empty_page_def
      blank_def sendMessage_def debounce_def model_debounceTime_def truthy_def)

text \<open>
  C2, amended: for every non-empty sequence of events on elements bound, deferred, to
  fields of the record \<open>(d, p)\<close>, the queue is scanned for entries of that record;
  where there are some, each field is merged in place into each of them and nothing
  is appended; where there is none, one \<open>dbInput\<close> is appended, and at the end it is
  the only entry of the record. Its fields hold, for each field name, the value of
  the last event on that name.
\<close>

theorem C2_deferred_merge:
  assumes "list_all (\<lambda>(e, v). record_field d p True e) evs" and "evs \<noteq> []"
  shows "actionQueue (db_events evs st)
         = (if list_ex (has_record d p) (actionQueue st)
            then map (merge_fields d p (fields_of evs)) (actionQueue st)
            else actionQueue st @ [DbInput d p (merged_fields (fields_of evs))])
       \<and> (\<not> list_ex (has_record d p) (actionQueue st) \<longrightarrow>
            filter (has_record d p) (actionQueue (db_events evs st))
            = [DbInput d p (merged_fields (fields_of evs))])
       \<and> map_of (merged_fields (fields_of evs)) = map_of (rev (fields_of evs))"
proof (cases "list_ex (has_record d p) (actionQueue st)")
  case True
  then show ?thesis
    using db_fold_found [OF assms(1) True] by (simp add: map_of_merged_fields)
next
  case False
  obtain e v rest where evs: "evs = (e, v) # rest" using assms(2) by (cases evs) auto
  from assms(1) evs have d: "record_field d p True e"
    and r: "list_all (\<lambda>(e, v). record_field d p True e) rest" by simp_all
  have q1: "actionQueue (dbEventListener e v st)
            = actionQueue st @ [DbInput d p [(field_name e, v)]]"
    using False by (simp add: deferred_db_step [OF d])
  have ex: "list_ex (has_record d p) (actionQueue (dbEventListener e v st))"
    using q1 by (simp add: has_record_def)
  have "actionQueue (db_events rest (dbEventListener e v st))
        = map (merge_fields d p (fields_of rest)) (actionQueue (dbEventListener e v st))"
    using db_fold_found [OF r ex] .
  moreover have "db_events evs st = db_events rest (dbEventListener e v st)"
    using evs by (simp add: db_events_def)
  moreover have "merged_fields (fields_of evs)
                 = fold (\<lambda>(k, v). AList.update k v) (fields_of rest) [(field_name e, v)]"
    using evs by (simp add: merged_fields_def fields_of_def)
  ultimately have "actionQueue (db_events evs st)
        = actionQueue st @ [DbInput d p (merged_fields (fields_of evs))]"
    using q1 False by (simp add: merge_fields_absent merge_fields_DbInput)
  then show ?thesis
    using False filter_absent [OF False]
    by (simp add: map_of_merged_fields has_record_def)
qed

text \<open>
  Three deferred events on two fields of the record \<open>(book, 7)\<close> of an empty page.
\<close>

theorem C2_deferred_merge_witness:
  "actionQueue
     (db_events
        [(record_input 1 ''book'' ''7'' ''title'' True, JStr ''a''),
         (record_input 2 ''book'' ''7'' ''author'' True, JStr ''b''),
         (record_input 1 ''book'' ''7'' ''title'' True, JStr ''ac'')] empty_page)
   = [DbInput ''book'' ''7'' [(''title'', JStr ''ac''), (''author'', JStr ''b'')]]"
proof -
  have a: "list_all (\<lambda>(e, v). record_field ''book'' ''7'' True e)
        [(record_input 1 ''book'' ''7'' ''title'' True, JStr ''a''),
         (record_input 2 ''book'' ''7'' ''author'' True, JStr ''b''),
         (record_input 1 ''book'' ''7'' ''title'' True, JStr ''ac'')]"
    by (simp add: record_field_def record_input_def)
  have c: "actionQueue empty_page = []"
    by (simp add: empty_page_def blank_def)
  show ?thesis
    using C2_deferred_merge [OF a, of empty_page] c
    by (simp add: merged_fields_def fields_of_def field_name_def record_input_def)
qed

section \<open>The scan by name and the other kinds of action\<close>

text \<open>
  C9: the scan of a deferred model event compares \<open>payload.name\<close> only. Where the
  queue holds a \<open>callMethod\<close> whose method has the name of the model, the event
  overwrites the value of that entry in place (every entry of that name is
  overwritten), appends nothing, records no triggering element and dispatches nothing.
\<close>

theorem C9_scan_ignores_type:
  assumes "deferred_model n e" and "i < length (actionQueue st)"
    and "actionQueue st ! i = CallMethod n ps w"
  shows "actionQueue (modelEventListener e v st) = map (overwrite_named n v) (actionQueue st)
       \<and> actionQueue (modelEventListener e v st) ! i = CallMethod n ps (Some v)
       \<and> length (actionQueue (modelEventListener e v st)) = length (actionQueue st)
       \<and> lastTriggeringElements (modelEventListener e v st) = lastTriggeringElements st
       \<and> windows (modelEventListener e v st) = windows st"
proof -
  have "has_name n (actionQueue st ! i)"
    using assms(3) by (simp add: has_name_def)
  then have ex: "list_ex (has_name n) (actionQueue st)"
    using assms(2) by (auto simp: list_ex_iff)
  have "modelEventListener e v st
        = st\<lparr>actionQueue := map (overwrite_named n v) (actionQueue st)\<rparr>"
    using ex by (simp add: deferred_model_step [OF assms(1)])
  then show ?thesis
    using assms(2) assms(3) by (simp add: overwrite_named_def)
qed

text \<open>
  A deferred input bound to \<open>save\<close>, after a call of the method \<open>save\<close>.
\<close>

theorem C9_scan_ignores_type_witness:
  "actionQueue
     (modelEventListener (bound_input 1 ''save'' False True) (JStr ''x'')
        (callMethod ''save'' None empty_page))
   = [CallMethod ''save'' [] (Some (JStr ''x''))]"
proof -
  have d: "deferred_model ''save'' (bound_input 1 ''save'' False True)"
    by (simp add: deferred_model_def bound_input_def)
  have q: "actionQueue (callMethod ''save'' None empty_page) = [CallMethod ''save'' [] None]"
    by (simp add: callMethod_def sendMessage_def debounce_def empty_page_def blank_def)
  have i: "0 < length (actionQueue (callMethod ''save'' None empty_page))"
    using q by simp
  have c: "actionQueue (callMethod ''save'' None empty_page) ! 0 = CallMethod ''save'' [] None"
    using q by simp
  show ?thesis
    using C9_scan_ignores_type [OF d i c, of "JStr ''x''"] q
    by (simp add: overwrite_named_def)
qed

section \<open>Dispatch\<close>

lemma undeferred_db_step:
  assumes "record_field d p False e"
  shows "dbEventListener e v st
         = sendMessage (model_debounceTime e) (DbCallback e)
             (st\<lparr>lastTriggeringElements := lastTriggeringElements st @ [e],
                 actionQueue := actionQueue st @ [DbInput d p [(field_name e, v)]]\<rparr>)"
proof -
  from assms obtain b f where b: "db e = Some b" "db_name b = Some d" "db_pk b = Some p"
    and f: "field e = Some f" "\<not> f_isDefer f" and ne: "d \<noteq> []" "p \<noteq> []"
    by (auto simp: record_field_def split: option.splits)
  show ?thesis
    using b f ne by (simp add: dbEventListener_def truthy_def field_name_def Let_def)
qed

text \<open>
  C10: an event on an element bound, not deferred, to a field of a record dispatches
  with the debounce time of \<open>element.model\<close>, whatever the field binding says, and
  sends nothing at the event. On an element with no model that time is \<open>undefined\<close>,
  not \<open>-1\<close>: the window opened has the wait \<open>undefined\<close> and not the default of 250.
  On an element with a model the window has the wait of that model, 250 when that is
  \<open>-1\<close>.
\<close>

theorem C10_db_debounce_from_model:
  assumes "record_field d p False e"
  shows "dbEventListener e v st
         = sendMessage (model_debounceTime e) (DbCallback e)
             (st\<lparr>lastTriggeringElements := lastTriggeringElements st @ [e],
                 actionQueue := actionQueue st @ [DbInput d p [(field_name e, v)]]\<rparr>)
       \<and> (model e = None \<longrightarrow>
            model_debounceTime e = None
            \<and> model_debounceTime e \<noteq> Some (- 1)
            \<and> windows (dbEventListener e v st)
              = filter (\<lambda>w. w_site w \<noteq> DbSite (el e)) (windows st)
                @ [\<lparr>w_site = DbSite (el e), w_wait = None, w_callback = DbCallback e\<rparr>])
       \<and> (\<forall>m. model e = Some m \<longrightarrow>
            model_debounceTime e = Some (m_debounceTime m)
            \<and> windows (dbEventListener e v st)
              = filter (\<lambda>w. w_site w \<noteq> DbSite (el e)) (windows st)
                @ [\<lparr>w_site = DbSite (el e),
                     w_wait = (if m_debounceTime m = - 1 then Some 250
                               else Some (m_debounceTime m)),
                     w_callback = DbCallback e\<rparr>])
       \<and> requests (dbEventListener e v st) = requests st"
proof -
  have none: "model e = None \<Longrightarrow> windows (dbEventListener e v st)
              = filter (\<lambda>w. w_site w \<noteq> DbSite (el e)) (windows st)
                @ [\<lparr>w_site = DbSite (el e), w_wait = None, w_callback = DbCallback e\<rparr>]"
    unfolding undeferred_db_step [OF assms]
    by (simp add: model_debounceTime_def sendMessage_def debounce_def)
  have some: "windows (dbEventListener e v st)
              = filter (\<lambda>w. w_site w \<noteq> DbSite (el e)) (windows st)
                @ [\<lparr>w_site = DbSite (el e),
                     w_wait = (if m_debounceTime m = - 1 then Some 250
                               else Some (m_debounceTime m)),
                     w_callback = DbCallback e\<rparr>]"
    if "model e = Some m" for m
    unfolding undeferred_db_step [OF assms]
    using that by (simp add: model_debounceTime_def sendMessage_def debounce_def)
  have req: "requests (dbEventListener e v st) = requests st"
    unfolding undeferred_db_step [OF assms]
    by (simp add: sendMessage_def debounce_def)
  have dt: "model e = Some m \<Longrightarrow> model_debounceTime e = Some (m_debounceTime m)" for m
    by (simp add: model_debounceTime_def)
  show ?thesis
    using undeferred_db_step [OF assms] none some req dt
    by (simp add: model_debounceTime_def)
qed

text \<open>
  Inputs bound to the title of the record \<open>(book, 7)\<close>: one with no model, one with a
  model of debounce time 500, one with a model of debounce time \<open>-1\<close>.
\<close>

theorem C10_db_debounce_from_model_witness:
  "windows (dbEventListener (record_input 1 ''book'' ''7'' ''title'' False) (JStr ''a'') empty_page)
   = [\<lparr>w_site = DbSite 1, w_wait = None,
        w_callback = DbCallback (record_input 1 ''book'' ''7'' ''title'' False)\<rparr>]
   \<and> windows (dbEventListener (record_input_with_model 2 ''book'' ''7'' ''title'' 500)
                 (JStr ''a'') empty_page)
     = [\<lparr>w_site = DbSite 2, w_wait = Some 500,
          w_callback = DbCallback (record_input_with_model 2 ''book'' ''7'' ''title'' 500)\<rparr>]
   \<and> windows (dbEventListener (record_input_with_model 3 ''book'' ''7'' ''title'' (- 1))
                 (JStr ''a'') empty_page)
     = [\<lparr>w_site = DbSite 3, w_wait = Some 250,
          w_callback = DbCallback (record_input_with_model 3 ''book'' ''7'' ''title'' (- 1))\<rparr>]"
proof -
  let ?e1 = "record_input 1 ''book'' ''7'' ''title'' False"
  let ?e2 = "record_input_with_model 2 ''book'' ''7'' ''title'' 500"
  let ?e3 = "record_input_with_model 3 ''book'' ''7'' ''title'' (- 1)"
  let ?m2 = "\<lparr>m_name = ''title'', m_eventType = ''input'', m_debounceTime = 500,
               m_isLazy = False, m_isDefer = False\<rparr>"
  let ?m3 = "\<lparr>m_name = ''title'', m_eventType = ''input'', m_debounceTime = - 1,
               m_isLazy = False, m_isDefer = False\<rparr>"
  have a1: "record_field ''book'' ''7'' False ?e1"
    and a2: "record_field ''book'' ''7'' False ?e2"
    and a3: "record_field ''book'' ''7'' False ?e3"
    by (simp_all add: record_field_def record_input_def record_input_with_model_def)
  have m1: "model ?e1 = None" and m2: "model ?e2 = Some ?m2" and m3: "model ?e3 = Some ?m3"
    by (simp_all add: record_input_def record_input_with_model_def)
  have w: "windows empty_page = []"
    by (simp add: empty_page_def blank_def)
  have e: "el ?e1 = 1" "el ?e2 = 2" "el ?e3 = 3"
    by (simp_all add: record_input_def record_input_with_model_def)
  from C10_db_debounce_from_model [OF a1, of "JStr ''a''" empty_page] m1
  have w1: "windows (dbEventListener ?e1 (JStr ''a'') empty_page)
        = filter (\<lambda>w. w_site w \<noteq> DbSite (el ?e1)) (windows empty_page)
          @ [\<lparr>w_site = DbSite (el ?e1), w_wait = None, w_callback = DbCallback ?e1\<rparr>]"
    by blast
  from C10_db_debounce_from_model [OF a2, of "JStr ''a''" empty_page] m2
  have w2: "windows (dbEventListener ?e2 (JStr ''a'') empty_page)
        = filter (\<lambda>w. w_site w \<noteq> DbSite (el ?e2)) (windows empty_page)
          @ [\<lparr>w_site = DbSite (el ?e2),
               w_wait = (if m_debounceTime ?m2 = - 1 then Some 250
                         else Some (m_debounceTime ?m2)),
               w_callback = DbCallback ?e2\<rparr>]"
    by blast
  from C10_db_debounce_from_model [OF a3, of "JStr ''a''" empty_page] m3
  have w3: "windows (dbEventListener ?e3 (JStr ''a'') empty_page)
        = filter (\<lambda>w. w_site w \<noteq> DbSite (el ?e3)) (windows empty_page)
          @ [\<lparr>w_site = DbSite (el ?e3),
               w_wait = (if m_debounceTime ?m3 = - 1 then Some 250
                         else Some (m_debounceTime ?m3)),
               w_callback = DbCallback ?e3\<rparr>]"
    by blast
  have r1: "windows (dbEventListener ?e1 (JStr ''a'') empty_page)
            = [\<lparr>w_site = DbSite 1, w_wait = None, w_callback = DbCallback ?e1\<rparr>]"
    using w1 w e by simp
  have r2: "windows (dbEventListener ?e2 (JStr ''a'') empty_page)
            = [\<lparr>w_site = DbSite 2, w_wait = Some 500, w_callback = DbCallback ?e2\<rparr>]"
    using w2 w e by simp
  have r3: "windows (dbEventListener ?e3 (JStr ''a'') empty_page)
            = [\<lparr>w_site = DbSite 3, w_wait = Some 250, w_callback = DbCallback ?e3\<rparr>]"
    using w3 w e by simp
  show ?thesis
    by (intro conjI r1 r2 r3)
qed

lemma callMethod_queue:
  "actionQueue (callMethod m ec st) = actionQueue st @ [CallMethod m [] None]"
  by (simp add: callMethod_def sendMessage_def debounce_def)

lemma callMethod_requests: "requests (callMethod m ec st) = requests st"
  by (simp add: callMethod_def sendMessage_def debounce_def)

lemma callMethod_window:
  "filter (\<lambda>w. w_site w = MethodSite) (windows (callMethod m ec st))
   = [\<lparr>w_site = MethodSite, w_wait = Some 250, w_callback = MethodCallback ec\<rparr>]"
  by (simp add: callMethod_def sendMessage_def debounce_def)

lemma method_calls_queue:
  "actionQueue (method_calls calls st) = actionQueue st @ call_actions calls
   \<and> requests (method_calls calls st) = requests st"
proof (induction calls arbitrary: st)
  case Nil
  then show ?case by (simp add: method_calls_def call_actions_def)
next
  case (Cons c calls)
  obtain m ec where c: "c = (m, ec)" by (cases c)
  have "method_calls (c # calls) st = method_calls calls (callMethod m ec st)"
    using c by (simp add: method_calls_def)
  then show ?case
    using Cons.IH [of "callMethod m ec st"] c
    by (simp add: callMethod_queue callMethod_requests call_actions_def)
qed

lemma method_calls_snoc:
  "method_calls (calls @ [(m, ec)]) st = callMethod m ec (method_calls calls st)"
  by (simp add: method_calls_def)

lemma window_elapses_one:
  assumes "filter (\<lambda>w. w_site w = site) (windows st) = [w]"
  shows "requests (window_elapses site st)
         = requests st @ [\<lparr>r_actions = actionQueue st, r_callback = w_callback w\<rparr>]
       \<and> filter (\<lambda>w. w_site w = site) (windows (window_elapses site st)) = []"
  using assms by (simp add: window_elapses_def send_def)

text \<open>
  C7: \<open>sendMessage\<close> with \<open>-1\<close> debounces \<open>send\<close> with the window of 250 and sends
  nothing at the call; \<open>callMethod\<close> always dispatches that way; so any number of calls
  of \<open>callMethod\<close> before the window elapses send nothing and give, when it does, one
  network call with all their actions, and no window stays open.
\<close>

theorem C7_default_window:
  assumes "calls \<noteq> []"
  shows "sendMessage (Some (- 1)) cb st = debounce (Some 250) False cb st
   \<and> requests (sendMessage (Some (- 1)) cb st) = requests st
   \<and> filter (\<lambda>w. w_site w = site_of cb) (windows (sendMessage (Some (- 1)) cb st))
     = [\<lparr>w_site = site_of cb, w_wait = Some 250, w_callback = cb\<rparr>]
   \<and> callMethod m ec st
     = sendMessage (Some (- 1)) (MethodCallback ec)
         (st\<lparr>actionQueue := actionQueue st @ [CallMethod m [] None]\<rparr>)
   \<and> requests (method_calls calls st) = requests st
   \<and> requests (window_elapses MethodSite (method_calls calls st))
     = requests st
       @ [\<lparr>r_actions = actionQueue st @ call_actions calls,
            r_callback = MethodCallback (snd (last calls))\<rparr>]
   \<and> filter (\<lambda>w. w_site w = MethodSite)
       (windows (window_elapses MethodSite (method_calls calls st)))
     = []"
proof -
  obtain cs m' ec' where calls: "calls = cs @ [(m', ec')]"
    using assms by (cases calls rule: rev_cases) auto
  let ?s = "method_calls calls st"
  have s: "?s = callMethod m' ec' (method_calls cs st)"
    using calls by (simp add: method_calls_snoc)
  have w: "filter (\<lambda>w. w_site w = MethodSite) (windows ?s)
           = [\<lparr>w_site = MethodSite, w_wait = Some 250, w_callback = MethodCallback ec'\<rparr>]"
    unfolding s by (rule callMethod_window)
  have e: "requests (window_elapses MethodSite ?s)
           = requests ?s @ [\<lparr>r_actions = actionQueue ?s, r_callback = MethodCallback ec'\<rparr>]
         \<and> filter (\<lambda>w. w_site w = MethodSite) (windows (window_elapses MethodSite ?s)) = []"
    using window_elapses_one [OF w] by simp
  have q: "actionQueue ?s = actionQueue st @ call_actions calls"
    and r: "requests ?s = requests st"
    using method_calls_queue [of calls st] by simp_all
  have f1: "sendMessage (Some (- 1)) cb st = debounce (Some 250) False cb st"
    by (simp add: sendMessage_def)
  have f2: "requests (sendMessage (Some (- 1)) cb st) = requests st"
    by (simp add: sendMessage_def debounce_def)
  have f3: "filter (\<lambda>w. w_site w = site_of cb) (windows (sendMessage (Some (- 1)) cb st))
        = [\<lparr>w_site = site_of cb, w_wait = Some 250, w_callback = cb\<rparr>]"
    by (simp add: sendMessage_def debounce_def)
  have f4: "callMethod m ec st
     = sendMessage (Some (- 1)) (MethodCallback ec)
         (st\<lparr>actionQueue := actionQueue st @ [CallMethod m [] None]\<rparr>)"
    by (simp add: callMethod_def)
  have f6: "requests (window_elapses MethodSite ?s)
     = requests st
       @ [\<lparr>r_actions = actionQueue st @ call_actions calls,
            r_callback = MethodCallback (snd (last calls))\<rparr>]"
    using e q r calls by simp
  have f7: "filter (\<lambda>w. w_site w = MethodSite) (windows (window_elapses MethodSite ?s)) = []"
    using e by simp
  show ?thesis
    by (intro conjI f1 f2 f3 f4 r f6 f7)
qed

text \<open>
  Three method calls on an empty page, then the end of the window.
\<close>

theorem C7_default_window_witness:
  "requests (window_elapses MethodSite
      (method_calls [(''refresh'', None), (''save'', None), (''refresh'', None)] empty_page))
   = [\<lparr>r_actions = [CallMethod ''refresh'' [] None, CallMethod ''save'' [] None,
                      CallMethod ''refresh'' [] None],
        r_callback = MethodCallback None\<rparr>]"
proof -
  have r: "requests empty_page = []" and q: "actionQueue empty_page = []"
    by (simp_all add: empty_page_def blank_def)
  have n: "[(''refresh'', None), (''save'', None), (''refresh'', None :: err_callback option)] \<noteq> []"
    by simp
  from C7_default_window [OF n, of "MethodCallback None" empty_page "''refresh''" None]
  have "requests (window_elapses MethodSite
          (method_calls [(''refresh'', None), (''save'', None), (''refresh'', None)] empty_page))
        = requests empty_page
          @ [\<lparr>r_actions = actionQueue empty_page
                 @ call_actions [(''refresh'', None), (''save'', None), (''refresh'', None)],
               r_callback = MethodCallback (snd (last
                 [(''refresh'', None), (''save'', None), (''refresh'', None :: err_callback option)]))\<rparr>]"
    by blast
  then show ?thesis using r q by (simp add: call_actions_def)
qed

section \<open>Focus\<close>

lemma focus_scan_True: "focus_scan attr l els True = ([], True)"
  by (induction els) auto

lemma focus_scan_False:
  "focus_scan attr l els False
   = (focus_of (attr_match attr l els), attr_match attr l els \<noteq> None)"
  by (induction els) (auto simp: attr_match_def focus_of_def focus_scan_True)

lemma restore_focus_eq:
  "restore_focus els ts
   = (if ts \<noteq> [] \<and> bound_not_lazy (last ts) then
        (case attr_match el_id (last ts) els of
           Some e \<Rightarrow> [Focus (el e)]
         | None \<Rightarrow> focus_of (attr_match el_key (last ts) els))
      else [])"
  by (auto simp: restore_focus_def last_element_def bound_not_lazy_def focus_scan_False
      focus_scan_True focus_of_def split: option.splits)

lemma setValue_loop_no_focus: "\<not> list_ex is_Focus (setValue_loop n ps d)"
  by (induction n ps d rule: setValue_loop.induct) auto

lemma set_model_value_effects:
  "\<exists>ws. effects (set_model_value ts e st) = effects st @ ws \<and> \<not> list_ex is_Focus ws"
  by (auto simp: set_model_value_def setValue_def setValue_loop_no_focus split: option.splits)

lemma fold_set_model_value_effects:
  "\<exists>ws. effects (fold (set_model_value ts) els st) = effects st @ ws \<and> \<not> list_ex is_Focus ws"
proof (induction els arbitrary: st)
  case Nil
  then show ?case by simp
next
  case (Cons e els)
  obtain ws1 where w1: "effects (set_model_value ts e st) = effects st @ ws1"
    and n1: "\<not> list_ex is_Focus ws1"
    using set_model_value_effects by blast
  obtain ws2 where w2: "effects (fold (set_model_value ts) els (set_model_value ts e st))
                        = effects (set_model_value ts e st) @ ws2"
    and n2: "\<not> list_ex is_Focus ws2"
    using Cons.IH by blast
  have "effects (fold (set_model_value ts) (e # els) st) = effects st @ (ws1 @ ws2)"
    using w1 w2 by simp
  moreover have "\<not> list_ex is_Focus (ws1 @ ws2)"
    using n1 n2 by simp
  ultimately show ?case by blast
qed

text \<open>
  C8: the calls of \<open>focus\<close> that \<open>setModelValues\<close> makes come before the values are
  written and are \<open>restore_focus\<close>. That is a call only if the list of triggering
  elements is not empty and its last element has a model that is not lazy; then the
  first bound model element with the \<open>id\<close> of that last element is focused, or else,
  when no element has that \<open>id\<close>, the first with its \<open>key\<close>; at most one element is
  focused, and none when the last trigger is lazy or nothing matches.
\<close>

theorem C8_focus_restoration:
  "(\<exists>ws. effects (setModelValues ts st)
           = effects st @ restore_focus (modelEls st) ts @ ws
         \<and> \<not> list_ex is_Focus ws)
   \<and> restore_focus els ts
     = (if ts \<noteq> [] \<and> bound_not_lazy (last ts) then
          (case attr_match el_id (last ts) els of
             Some e \<Rightarrow> [Focus (el e)]
           | None \<Rightarrow> focus_of (attr_match el_key (last ts) els))
        else [])
   \<and> length (restore_focus els ts) \<le> 1"
proof -
  have "\<exists>ws. effects (setModelValues ts st)
           = effects st @ restore_focus (modelEls st) ts @ ws
         \<and> \<not> list_ex is_Focus ws"
    using fold_set_model_value_effects
      [of ts "modelEls st" "st\<lparr>effects := effects st @ restore_focus (modelEls st) ts\<rparr>"]
    by (simp add: setModelValues_def Let_def)
  moreover have "length (restore_focus els ts) \<le> 1"
    by (simp add: restore_focus_eq focus_of_def split: option.splits)
  ultimately show ?thesis
    using restore_focus_eq by blast
qed

text \<open>
  Triggering elements \<open>A\<close> and \<open>B\<close>, where \<open>B\<close>, the last, is not lazy and has the \<open>id\<close> of
  the bound element \<open>C\<close>: \<open>C\<close> is focused.
\<close>

theorem C8_focus_restoration_witness:
  "restore_focus [input_with_id 1 ''first'' ''a'', input_with_id 3 ''second'' ''b'']
     [input_with_id 1 ''first'' ''a'', input_with_id 2 ''second'' ''b'']
   = [Focus 3]"
  using C8_focus_restoration
    [of "[input_with_id 1 ''first'' ''a'', input_with_id 2 ''second'' ''b'']" empty_page
        "[input_with_id 1 ''first'' ''a'', input_with_id 3 ''second'' ''b'']"]
  by (simp add: input_with_id_def bound_input_def bound_not_lazy_def attr_match_def truthy_def)

section \<open>Polling\<close>

text \<open>
  Whatever the component, the \<open>handleError\<close> that \<open>startPolling\<close> hands to the timer
  holds the \<open>null\<close> of line 359, and with it \<open>handleError\<close> clears no timer.
\<close>

lemma startPolling_handler:
  assumes "poll st = Some p"
  shows "intervals (startPolling st)
         = intervals st
           @ [\<lparr>iv_id = nextTimer st, iv_delay = p_timing p, iv_method = p_method p,
                iv_errCallback = HandleError None\<rparr>]"
  using assms
  by (simp add: startPolling_def callMethod_def sendMessage_def debounce_def setInterval_def
      Let_def)

lemma handleError_null_timer:
  "intervals (handleError (HandleError None) err st) = intervals st"
  by (simp add: truthy_timer_def console_error_def)

lemma initPolling_polling_page:
  "initPolling polling_page
   = polling_page
       \<lparr>poll := Some \<lparr>p_method = ''refresh'', p_timing = 5000, p_timer = Some 1\<rparr>,
        documentListeners := [(''visibilitychange'', VisibilityListener)],
        actionQueue := [CallMethod ''refresh'' [] None],
        windows := [\<lparr>w_site = MethodSite, w_wait = Some 250,
                      w_callback = MethodCallback (Some (HandleError None))\<rparr>],
        intervals := [\<lparr>iv_id = 1, iv_delay = 5000, iv_method = ''refresh'',
                        iv_errCallback = HandleError None\<rparr>],
        nextTimer := 2\<rparr>"
  by (simp add: initPolling_def polling_page_def blank_def root_element_def startPolling_def
      callMethod_def sendMessage_def debounce_def setInterval_def Let_def)

text \<open>
  C3 says that polling ends for good at the first error. On the page that polls
  \<open>refresh\<close> every 5000 ms, \<open>initPolling\<close> calls the method once and starts the timer,
  as C3 says; the network call made when the window elapses carries \<open>handleError\<close>
  with the \<open>timer\<close> it captured at line 360, which is \<open>null\<close>. When that call
  completes with the error \<open>boom\<close>, the timer is still running, and its next tick calls
  the method again.
\<close>

theorem C3_error_does_not_stop_polling:
  "actionQueue (initPolling polling_page) = [CallMethod ''refresh'' [] None]
   \<and> intervals (initPolling polling_page)
     = [\<lparr>iv_id = 1, iv_delay = 5000, iv_method = ''refresh'',
          iv_errCallback = HandleError None\<rparr>]
   \<and> requests (window_elapses MethodSite (initPolling polling_page))
     = [\<lparr>r_actions = [CallMethod ''refresh'' [] None],
          r_callback = MethodCallback (Some (HandleError None))\<rparr>]
   \<and> intervals
       (run_callback (MethodCallback (Some (HandleError None))) [] [] (Some ''boom'')
          (window_elapses MethodSite (initPolling polling_page)))
     = [\<lparr>iv_id = 1, iv_delay = 5000, iv_method = ''refresh'',
          iv_errCallback = HandleError None\<rparr>]
   \<and> actionQueue
       (interval_fires 1
          (run_callback (MethodCallback (Some (HandleError None))) [] [] (Some ''boom'')
             (window_elapses MethodSite (initPolling polling_page))))
     = [CallMethod ''refresh'' [] None, CallMethod ''refresh'' [] None]"
proof -
  have r: "requests polling_page = []"
    by (simp add: polling_page_def blank_def)
  show ?thesis
    using r
    by (simp add: initPolling_polling_page window_elapses_def send_def truthy_def
        truthy_timer_def console_error_def interval_fires_def callMethod_def sendMessage_def
        debounce_def)
qed

section \<open>Rebuilding the registry\<close>

text \<open>
  C4 says that a second rebuild on the same markup adds no listener to an element. On
  the page with one input and one button, the first \<open>refreshEventListeners\<close> adds one
  listener to the input and the second adds another one (\<open>modelEls\<close> is emptied at
  line 255, so the test of line 269 finds nothing), while the listener of the
  document for \<open>click\<close> is added once (\<open>attachedEventTypes\<close> is kept). An \<open>input\<close>
  event then enqueues twice.
\<close>

theorem C4_rebuild_adds_listeners:
  "elementListeners (refreshEventListeners form_page)
   = [(1, ''input'', ModelListener (bound_input 1 ''name'' False False))]
   \<and> elementListeners (refreshEventListeners (refreshEventListeners form_page))
     = [(1, ''input'', ModelListener (bound_input 1 ''name'' False False)),
        (1, ''input'', ModelListener (bound_input 1 ''name'' False False))]
   \<and> documentListeners (refreshEventListeners (refreshEventListeners form_page))
     = [(''click'', ActionListener ''click'')]
   \<and> actionQueue
       (fire_event 1 ''input'' (JStr ''a'')
          (refreshEventListeners (refreshEventListeners form_page)))
     = [SyncInput ''name'' (JStr ''a''), SyncInput ''name'' (JStr ''a'')]"
  by (simp add: refreshEventListeners_def form_page_def blank_def refresh_node_def
      root_element_def bound_input_def action_button_def addModelEventListener_def
      register_action_def addActionEventListener_def fire_event_def modelEventListener_def
      sendMessage_def debounce_def model_debounceTime_def Let_def)

section \<open>Writing values\<close>

text \<open>
  The flag of lines 484-490 is set as soon as one triggering element is another node.
\<close>

lemma shouldSetValue_eq:
  "shouldSetValue e ts flag = (flag \<or> list_ex (\<lambda>t. el e \<noteq> el t) ts)"
  by (induction ts arbitrary: flag) auto

text \<open>
  C5 says that no triggering element is written. With three bound inputs and the
  first two of them as triggering elements, \<open>setModelValues\<close> writes all three: each
  trigger differs from the other one, which sets the flag \<open>shouldSetValue\<close>.
\<close>

theorem C5_triggering_elements_written:
  "effects
     (setModelValues [bound_input 1 ''a'' False False, bound_input 2 ''b'' False False]
        three_inputs)
   = [SetValue 1 (JStr ''x''), SetValue 2 (JStr ''y''), SetValue 3 (JStr ''z'')]"
  by (simp add: three_inputs_def refreshEventListeners_def blank_def refresh_node_def
      root_element_def bound_input_def addModelEventListener_def setModelValues_def
      restore_focus_def last_element_def focus_scan_True truthy_def set_model_value_def
      setValue_def Let_def)

text \<open>
  With no triggering element every bound input is written, and with one the others are.
\<close>

lemma setModelValues_examples:
  "effects (setModelValues [] three_inputs)
   = [SetValue 1 (JStr ''x''), SetValue 2 (JStr ''y''), SetValue 3 (JStr ''z'')]
   \<and> effects (setModelValues [bound_input 1 ''a'' False False] three_inputs)
     = [SetValue 2 (JStr ''y''), SetValue 3 (JStr ''z'')]"
  by (simp add: three_inputs_def refreshEventListeners_def blank_def refresh_node_def
      root_element_def bound_input_def addModelEventListener_def setModelValues_def
      restore_focus_def last_element_def focus_scan_True truthy_def set_model_value_def
      setValue_def Let_def)

text \<open>
  Where the path resolves, the loop of \<open>setValue\<close> writes the value it resolves to; and
  the loop never writes twice.
\<close>

lemma setValue_loop_resolved:
  "spec_resolve_path ps d = Some v \<Longrightarrow> setValue_loop n ps d = [SetValue n v]"
  by (induction ps arbitrary: d) (auto split: if_splits)

lemma setValue_loop_at_most_one: "length (setValue_loop n ps d) \<le> 1"
  by (induction n ps d rule: setValue_loop.induct) auto

text \<open>
  C6 says that an absent intermediate segment ends the traversal with no write. For
  the path \<open>a.b\<close> and the data \<open>{b: "X"}\<close> the segment \<open>a\<close> is absent, the loop goes on to
  \<open>b\<close> at the same level and \<open>X\<close> is written.
\<close>

theorem C6_absent_segment_is_skipped:
  "spec_resolve_path (split_on CHR ''.'' ''a.b'') (JObj [(''b'', JStr ''X'')]) = None
   \<and> effects
       (setValue (bound_input 1 ''a.b'' False False)
          (blank (JObj [(''b'', JStr ''X'')]) (root_element None) []))
     = [SetValue 1 (JStr ''X'')]"
proof -
  have "split_on CHR ''.'' ''a.b'' = [''a'', ''b'']"
    by simp
  then show ?thesis
    by (simp add: setValue_def bound_input_def blank_def)
qed

text \<open>
  The two examples of the spec for \<open>setValue\<close> do hold.
\<close>

lemma setValue_examples:
  "effects
     (setValue (bound_input 1 ''user.address.city'' False False)
        (blank (JObj [(''user'', JObj [(''address'', JObj [(''city'', JStr ''Lyon'')])])])
           (root_element None) []))
   = [SetValue 1 (JStr ''Lyon'')]
   \<and> effects
       (setValue (bound_input 1 ''user.address.city'' False False)
          (blank (JObj [(''user'', JObj [])]) (root_element None) []))
     = []"
  by (simp add: setValue_def bound_input_def blank_def)

end
